theory Spec2Isabelle
  imports Complex_Main "HOL-Library.AList"
begin

section \<open>Common Python and numpy notions\<close>

text \<open>
  A float that the program takes as input or keeps as a parameter is a real number.  The
  score arithmetic of the anomaly detectors is carried out in \<open>f64\<close> below, which keeps
  what a float64 result can be besides a number (an infinity after overflow or division
  by zero, NaN) and leaves out the rounding of results within range and the sign of zero.
  The statistics of a fit, the classifier's scores and the agents' comparisons stay real.
  A numpy batch of shape (samples, features) is a list of rows; a
  numpy vector is a list.  Exceptions are values of \<open>py_error\<close>; a function of the source
  that can raise returns \<open>py_error + 'a\<close>, and a \<^verbatim>\<open>try/except Exception\<close> of the source is a
  case distinction on that sum.
\<close>

datatype py_error = ValueError

type_synonym vec = "real list"
type_synonym matrix = "real list list"

text \<open>The constant \<^verbatim>\<open>1e-8\<close> that the detectors add to every spread.\<close>

definition eps :: real where
  "eps = 1 / 100000000"

text \<open>
  float64 results.  A result whose exact value reaches \<^verbatim>\<open>2^1024 - 2^970\<close> in magnitude
  (half a unit in the last place beyond the largest float64) rounds to an infinity.
\<close>

datatype f64 = Fin real | PInf | NInf | NaN

definition f64_limit :: real where
  "f64_limit = 2 ^ 1024 - 2 ^ 970"

definition round_f64 :: "real \<Rightarrow> f64" where
  "round_f64 r = (if r \<ge> f64_limit then PInf else if r \<le> - f64_limit then NInf else Fin r)"

fun fadd :: "f64 \<Rightarrow> f64 \<Rightarrow> f64" where
  "fadd (Fin a) (Fin b) = round_f64 (a + b)"
| "fadd NaN y = NaN"
| "fadd x NaN = NaN"
| "fadd PInf NInf = NaN"
| "fadd NInf PInf = NaN"
| "fadd PInf y = PInf"
| "fadd x PInf = PInf"
| "fadd NInf y = NInf"
| "fadd x NInf = NInf"

text \<open>The sign of a value that is not NaN.\<close>

fun fsgn :: "f64 \<Rightarrow> real" where
  "fsgn (Fin a) = sgn a"
| "fsgn PInf = 1"
| "fsgn NInf = - 1"
| "fsgn NaN = 0"

fun fmul :: "f64 \<Rightarrow> f64 \<Rightarrow> f64" where
  "fmul (Fin a) (Fin b) = round_f64 (a * b)"
| "fmul NaN y = NaN"
| "fmul x NaN = NaN"
| "fmul x y =
     (if fsgn x * fsgn y > 0 then PInf else if fsgn x * fsgn y < 0 then NInf else NaN)"

text \<open>
  Division as numpy does it: a division by zero is no exception, it gives an infinity, or
  NaN for \<open>0 / 0\<close>; an infinity over an infinity is NaN.
\<close>

fun fdiv :: "f64 \<Rightarrow> f64 \<Rightarrow> f64" where
  "fdiv (Fin a) (Fin b) =
     (if b = 0 then (if a > 0 then PInf else if a < 0 then NInf else NaN)
      else round_f64 (a / b))"
| "fdiv NaN y = NaN"
| "fdiv x NaN = NaN"
| "fdiv (Fin a) y = Fin 0"
| "fdiv PInf (Fin b) = (if b < 0 then NInf else PInf)"
| "fdiv NInf (Fin b) = (if b < 0 then PInf else NInf)"
| "fdiv x y = NaN"

fun fabs :: "f64 \<Rightarrow> f64" where
  "fabs (Fin a) = Fin \<bar>a\<bar>"
| "fabs PInf = PInf"
| "fabs NInf = PInf"
| "fabs NaN = NaN"

text \<open>The maximum that \<^verbatim>\<open>np.max\<close> folds with: NaN wins over everything.\<close>

fun fmax :: "f64 \<Rightarrow> f64 \<Rightarrow> f64" where
  "fmax (Fin a) (Fin b) = Fin (max a b)"
| "fmax NaN y = NaN"
| "fmax x NaN = NaN"
| "fmax PInf y = PInf"
| "fmax x PInf = PInf"
| "fmax NInf y = y"
| "fmax x NInf = x"

text \<open>\<^verbatim>\<open>np.clip(x, 0, 1)\<close>: NaN stays NaN.\<close>

fun fclip :: "f64 \<Rightarrow> f64" where
  "fclip (Fin a) = Fin (min (max a 0) 1)"
| "fclip PInf = Fin 1"
| "fclip NInf = Fin 0"
| "fclip NaN = NaN"

text \<open>Run a list of fallible computations; the first exception wins.\<close>

fun collect :: "('e + 'a) list \<Rightarrow> 'e + 'a list" where
  "collect [] = Inr []"
| "collect (Inl e # rs) = Inl e"
| "collect (Inr x # rs) = (case collect rs of Inl e \<Rightarrow> Inl e | Inr xs \<Rightarrow> Inr (x # xs))"

text \<open>
  numpy broadcasting of a binary operation on the last axis: equal lengths combine
  pointwise, a length-one operand is stretched, anything else raises ValueError.
\<close>

definition broadcast :: "('a \<Rightarrow> 'b \<Rightarrow> 'c) \<Rightarrow> 'a list \<Rightarrow> 'b list \<Rightarrow> py_error + 'c list" where
  "broadcast f xs ys =
     (if length xs = length ys then Inr (map2 f xs ys)
      else if length ys = 1 then Inr (map (\<lambda>x. f x (hd ys)) xs)
      else if length xs = 1 then Inr (map (\<lambda>y. f (hd xs) y) ys)
      else Inl ValueError)"

text \<open>A batch against a vector: every row is broadcast against the vector.\<close>

definition broadcast_rows ::
  "('a \<Rightarrow> 'b \<Rightarrow> 'c) \<Rightarrow> 'a list list \<Rightarrow> 'b list \<Rightarrow> py_error + 'c list list" where
  "broadcast_rows f X v = collect (map (\<lambda>row. broadcast f row v) X)"



text \<open>\<^verbatim>\<open>np.max\<close> on float64 results, and \<^verbatim>\<open>np.max(A, axis=1)\<close>: the maximum of every row.\<close>

fun np_fmax :: "f64 list \<Rightarrow> py_error + f64" where
  "np_fmax [] = Inl ValueError"
| "np_fmax (x # xs) = Inr (fold fmax xs x)"

definition np_fmax_axis1 :: "f64 list list \<Rightarrow> py_error + f64 list" where
  "np_fmax_axis1 A = collect (map np_fmax A)"

definition np_mean :: "vec \<Rightarrow> real" where
  "np_mean xs = sum_list xs / real (length xs)"

text \<open>\<^verbatim>\<open>np.std\<close> with its default \<^verbatim>\<open>ddof=0\<close>: the root of the mean squared deviation.\<close>

definition np_std :: "vec \<Rightarrow> real" where
  "np_std xs = sqrt (np_mean (map (\<lambda>x. (abs (x - np_mean xs))\<^sup>2) xs))"



section \<open>AnomalyDetector (src/models/anomaly\_detection.py)\<close>

text \<open>
  The isolation forest is scikit-learn's; the detector only calls its \<^verbatim>\<open>predict\<close> and
  \<^verbatim>\<open>score_samples\<close>, either of which may raise.  A fitted forest is therefore a pair of
  such functions, taken as given.
\<close>

record IsolationForest =
  predict :: "matrix \<Rightarrow> py_error + vec"
  score_samples :: "matrix \<Rightarrow> py_error + vec"

text \<open>The dictionary \<^verbatim>\<open>baseline_stats\<close> once \<^verbatim>\<open>fit_statistical_baseline\<close> has filled it.\<close>

record baseline =
  mean :: vec
  std :: vec
  min_stat :: vec
  max_stat :: vec
  median :: vec
  mad :: vec

text \<open>
  The detector object.  \<open>isolation_forest = None\<close> is Python's \<^verbatim>\<open>None\<close>;
  \<open>baseline_stats = None\<close> is the empty dictionary \<^verbatim>\<open>{}\<close> of \<^verbatim>\<open>__init__\<close>.
\<close>

record AnomalyDetector =
  contamination_ratio :: real
  isolation_forest :: "IsolationForest option"
  baseline_stats :: "baseline option"
  trained :: bool

text \<open>\<^verbatim>\<open>__init__\<close> stores the ratio and checks nothing; it cannot raise.\<close>

definition AnomalyDetector_init :: "real \<Rightarrow> py_error + AnomalyDetector" where
  "AnomalyDetector_init ratio =
     Inr \<lparr>contamination_ratio = ratio, isolation_forest = None,
          baseline_stats = None, trained = False\<rparr>"



text \<open>
  \<^verbatim>\<open>detect_isolation_forest\<close>: empty arrays without a model and on any exception of the
  model; otherwise the predictions and the negated sample scores.
\<close>

definition detect_isolation_forest :: "AnomalyDetector \<Rightarrow> matrix \<Rightarrow> vec \<times> vec" where
  "detect_isolation_forest self X =
     (case isolation_forest self of
        None \<Rightarrow> ([], [])
      | Some forest \<Rightarrow>
         (case predict forest X of
            Inl e \<Rightarrow> ([], [])
          | Inr predictions \<Rightarrow>
             (case score_samples forest X of
                Inl e \<Rightarrow> ([], [])
              | Inr s \<Rightarrow> (predictions, map uminus s))))"

text \<open>
  The \<^verbatim>\<open>try\<close> block of \<^verbatim>\<open>detect_statistical\<close>:
  \<^verbatim>\<open>np.max(np.abs((X - mean) / (std + 1e-8)), axis=1)\<close>, every operation giving a float64
  result.
\<close>

definition statistical_scores :: "baseline \<Rightarrow> matrix \<Rightarrow> py_error + f64 list" where
  "statistical_scores b X =
     (case broadcast_rows (\<lambda>x m. round_f64 (x - m)) X (mean b) of
        Inl e \<Rightarrow> Inl e
      | Inr D \<Rightarrow>
         (case broadcast_rows fdiv D (map (\<lambda>s. round_f64 (s + eps)) (std b)) of
            Inl e \<Rightarrow> Inl e
          | Inr Q \<Rightarrow> np_fmax_axis1 (map (map fabs) Q)))"

definition detect_statistical :: "AnomalyDetector \<Rightarrow> matrix \<Rightarrow> f64 list" where
  "detect_statistical self X =
     (case baseline_stats self of
        None \<Rightarrow> []
      | Some b \<Rightarrow> (case statistical_scores b X of Inl e \<Rightarrow> [] | Inr scores \<Rightarrow> scores))"

text \<open>
  The \<^verbatim>\<open>try\<close> block of \<^verbatim>\<open>detect_mad\<close>:
  \<^verbatim>\<open>np.max(np.abs(X - median) / (mad + 1e-8), axis=1)\<close>.
\<close>

definition mad_scores :: "baseline \<Rightarrow> matrix \<Rightarrow> py_error + f64 list" where
  "mad_scores b X =
     (case broadcast_rows (\<lambda>x m. round_f64 (x - m)) X (median b) of
        Inl e \<Rightarrow> Inl e
      | Inr D \<Rightarrow>
         (case broadcast_rows fdiv (map (map fabs) D) (map (\<lambda>m. round_f64 (m + eps)) (mad b)) of
            Inl e \<Rightarrow> Inl e
          | Inr Q \<Rightarrow> np_fmax_axis1 Q))"

definition detect_mad :: "AnomalyDetector \<Rightarrow> matrix \<Rightarrow> f64 list" where
  "detect_mad self X =
     (case baseline_stats self of
        None \<Rightarrow> []
      | Some b \<Rightarrow> (case mad_scores b X of Inl e \<Rightarrow> [] | Inr scores \<Rightarrow> scores))"



text \<open>
  \<^verbatim>\<open>np.clip(scores / np.max(scores + 1e-8), 0, 1)\<close>.  The maximum of an empty array
  raises, and \<^verbatim>\<open>ensemble_detection\<close> has no handler around it.
\<close>

definition normalize_scores :: "f64 list \<Rightarrow> py_error + f64 list" where
  "normalize_scores scores =
     (case np_fmax (map (\<lambda>s. fadd s (Fin eps)) scores) of
        Inl e \<Rightarrow> Inl e
      | Inr m \<Rightarrow> Inr (map (\<lambda>s. fclip (fdiv s m)) scores))"

text \<open>
  \<^verbatim>\<open>ensemble_scores += weight * scores\<close>: an in-place addition broadcasts only its
  right operand.
\<close>

definition iadd_scaled :: "f64 list \<Rightarrow> real \<Rightarrow> f64 list \<Rightarrow> py_error + f64 list" where
  "iadd_scaled acc w scores =
     (if length scores = length acc
      then Inr (map2 (\<lambda>a s. fadd a (fmul (Fin w) s)) acc scores)
      else if length scores = 1 then Inr (map (\<lambda>a. fadd a (fmul (Fin w) (hd scores))) acc)
      else Inl ValueError)"

text \<open>The weight dictionary; \<^verbatim>\<open>weights.get(method, 0)\<close> reads it.\<close>

type_synonym weights = "string \<rightharpoonup> real"

definition default_weights :: weights where
  "default_weights =
     [''isolation_forest'' \<mapsto> 4 / 10, ''statistical'' \<mapsto> 3 / 10, ''mad'' \<mapsto> 3 / 10]"

definition weight_of :: "weights \<Rightarrow> string \<Rightarrow> real" where
  "weight_of ws method = (case ws method of None \<Rightarrow> 0 | Some w \<Rightarrow> w)"

text \<open>The loop over \<^verbatim>\<open>method_scores.items()\<close>, carrying the running sum and the total weight.\<close>

fun fuse ::
  "weights \<Rightarrow> (string \<times> f64 list) list \<Rightarrow> f64 list \<Rightarrow> real \<Rightarrow> py_error + f64 list \<times> real" where
  "fuse ws [] ensemble_scores total_weight = Inr (ensemble_scores, total_weight)"
| "fuse ws ((method, scores) # rest) ensemble_scores total_weight =
     (case iadd_scaled ensemble_scores (weight_of ws method) scores of
        Inl e \<Rightarrow> Inl e
      | Inr acc \<Rightarrow> fuse ws rest acc (total_weight + weight_of ws method))"

text \<open>
  The first half of \<^verbatim>\<open>ensemble_detection\<close>, which fills \<open>method_scores\<close> (the
  insertion-ordered dictionary, as an association list).  The isolation-forest entry is
  computed whenever a forest is present, with no look at the size of its scores; the two
  statistical entries only when their detector returned a non-empty array.
\<close>

definition method_scores_of ::
  "AnomalyDetector \<Rightarrow> matrix \<Rightarrow> py_error + (string \<times> f64 list) list" where
  "method_scores_of self X =
     (case (if isolation_forest self \<noteq> None
            then (case normalize_scores (map Fin (snd (detect_isolation_forest self X))) of
                    Inl e \<Rightarrow> Inl e
                  | Inr n \<Rightarrow> Inr [(''isolation_forest'', n)])
            else Inr []) of
        Inl e \<Rightarrow> Inl e
      | Inr ms1 \<Rightarrow>
     (let stat_scores = detect_statistical self X in
      case (if length stat_scores > 0
            then (case normalize_scores stat_scores of
                    Inl e \<Rightarrow> Inl e
                  | Inr n \<Rightarrow> Inr (ms1 @ [(''statistical'', n)]))
            else Inr ms1) of
        Inl e \<Rightarrow> Inl e
      | Inr ms2 \<Rightarrow>
     (let mad_sc = detect_mad self X in
      if length mad_sc > 0
      then (case normalize_scores mad_sc of
              Inl e \<Rightarrow> Inl e
            | Inr n \<Rightarrow> Inr (ms2 @ [(''mad'', n)]))
      else Inr ms2)))"

text \<open>
  \<^verbatim>\<open>ensemble_detection\<close>: the weighted sum over the methods that produced scores, divided
  by the total weight when that is positive.  \<open>weights = None\<close> takes the default weights.
\<close>

definition ensemble_detection ::
  "AnomalyDetector \<Rightarrow> matrix \<Rightarrow> weights option
     \<Rightarrow> py_error + f64 list \<times> (string \<times> f64 list) list" where
  "ensemble_detection self X weights =
     (let ws = (case weights of None \<Rightarrow> default_weights | Some w \<Rightarrow> w) in
      case method_scores_of self X of
        Inl e \<Rightarrow> Inl e
      | Inr method_scores \<Rightarrow>
     (case fuse ws method_scores (replicate (length X) (Fin 0)) 0 of
        Inl e \<Rightarrow> Inl e
      | Inr (ensemble_scores, total_weight) \<Rightarrow>
          Inr (if total_weight > 0
               then map (\<lambda>s. fdiv s (Fin total_weight)) ensemble_scores
               else ensemble_scores,
               method_scores)))"

text \<open>
  The label of \<^verbatim>\<open>classify_anomaly\<close> is an f-string; it is kept as its pieces, a number
  to be printed with a fixed count of decimals staying a number.
\<close>

datatype piece = Txt string | Num nat real

definition classify_anomaly :: "real \<Rightarrow> real \<Rightarrow> real \<Rightarrow> string \<times> piece list" where
  "classify_anomaly anomaly_score critical_threshold warning_threshold =
     (if anomaly_score \<ge> critical_threshold
        then (''CRITICAL'', [Txt ''Critical anomaly detected (score: '', Num 3 anomaly_score, Txt '')''])
      else if anomaly_score \<ge> warning_threshold
        then (''WARNING'', [Txt ''Suspicious behavior detected (score: '', Num 3 anomaly_score, Txt '')''])
      else (''NORMAL'', [Txt ''Normal behavior (score: '', Num 3 anomaly_score, Txt '')'']))"

text \<open>The order \<open>NORMAL < WARNING < CRITICAL\<close> of the severity names.\<close>

definition severity_rank :: "string \<Rightarrow> nat" where
  "severity_rank s = (if s = ''CRITICAL'' then 2 else if s = ''WARNING'' then 1 else 0)"

section \<open>DeepAttackClassifier (src/models/deep\_learning.py)\<close>

datatype threshold_level = Low | High | Very_high

text \<open>A feature dictionary, and a signature: the threshold level expected of each feature.\<close>

type_synonym features = "string \<rightharpoonup> real"
type_synonym signature = "(string \<times> threshold_level) list"

text \<open>The table \<^verbatim>\<open>attack_signatures\<close> of \<^verbatim>\<open>__init__\<close>, in its insertion order.\<close>

definition attack_signatures :: "(string \<times> signature) list" where
  "attack_signatures =
     [(''Port Scan'', [(''unique_dst_ports'', High), (''packet_rate'', High), (''syn_count'', High)]),
      (''Brute Force'', [(''failed_login_count'', High), (''warning_ratio'', High)]),
      (''SQL Injection'', [(''sql_injection_count'', High), (''suspicious_command_count'', High)]),
      (''DoS Attack'', [(''packet_rate'', Very_high), (''packet_count'', Very_high)]),
      (''Data Exfiltration'', [(''avg_payload_size'', High), (''unique_dst_ips'', High)]),
      (''Malware Traffic'', [(''port_scan_count'', High), (''privilege_escalation_count'', High)]),
      (''Privilege Escalation'',
         [(''privilege_escalation_count'', High), (''access_violation_count'', High)]),
      (''Normal Traffic'', [(''critical_ratio'', Low), (''warning_ratio'', Low)])]"

text \<open>
  The loop of \<^verbatim>\<open>_calculate_match_score\<close> with its two counters.  A feature that the
  dictionary lacks is skipped.
\<close>

fun match_loop :: "features \<Rightarrow> signature \<Rightarrow> real \<Rightarrow> nat \<Rightarrow> real \<times> nat" where
  "match_loop fs [] score matches = (score, matches)"
| "match_loop fs ((feature_name, level) # rest) score matches =
     (case fs feature_name of
        None \<Rightarrow> match_loop fs rest score matches
      | Some v \<Rightarrow>
         (case level of
            High \<Rightarrow>
              if v > 50 then match_loop fs rest (score + 20) (matches + 1)
              else match_loop fs rest score matches
          | Very_high \<Rightarrow>
              if v > 80 then match_loop fs rest (score + 30) (matches + 1)
              else match_loop fs rest score matches
          | Low \<Rightarrow>
              if v < 20 then match_loop fs rest (score + 20) (matches + 1)
              else match_loop fs rest score matches))"

definition calculate_match_score :: "features \<Rightarrow> signature \<Rightarrow> real" where
  "calculate_match_score fs signatures =
     (case match_loop fs signatures 0 0 of
        (score, matches) \<Rightarrow>
          if matches > 0 then score * (1 + real matches * (1 / 10)) else score)"

text \<open>
  The loop of \<^verbatim>\<open>classify\<close>: the best score so far, its attack name (\<open>None\<close> is Python's
  \<^verbatim>\<open>None\<close>), and the dictionary \<open>details\<close> as an association list.
\<close>

fun classify_loop ::
  "features \<Rightarrow> (string \<times> signature) list \<Rightarrow> string option \<Rightarrow> real \<Rightarrow> (string \<times> real) list
     \<Rightarrow> string option \<times> real \<times> (string \<times> real) list" where
  "classify_loop fs [] best_match best_score details = (best_match, best_score, details)"
| "classify_loop fs ((attack_name, signatures) # rest) best_match best_score details =
     (let score = calculate_match_score fs signatures in
      if score > best_score
      then classify_loop fs rest (Some attack_name) score (details @ [(attack_name, score)])
      else classify_loop fs rest best_match best_score (details @ [(attack_name, score)]))"

text \<open>
  \<^verbatim>\<open>classify\<close>.  With numeric feature values nothing in the \<^verbatim>\<open>try\<close> block raises, so the
  handler's \<open>('Unknown', 0.0, {})\<close> is not reached.
\<close>

definition classify :: "features \<Rightarrow> real \<Rightarrow> string option \<times> real \<times> (string \<times> real) list" where
  "classify fs confidence_threshold =
     (case classify_loop fs attack_signatures None 0 [] of
        (best_match, best_score, details) \<Rightarrow>
          (let confidence = min 1 (best_score / 100) in
           if confidence < confidence_threshold
           then (Some ''Unknown Attack'', confidence, details)
           else (best_match, confidence, details)))"

text \<open>
  The score as the specification words it: points per signature entry, summed, times
  \<open>1 + 0.1 \<times> matched\<close> when something matched.
\<close>

definition crosses_cutoff :: "features \<Rightarrow> string \<times> threshold_level \<Rightarrow> bool" where
  "crosses_cutoff fs entry =
     (case fs (fst entry) of
        None \<Rightarrow> False
      | Some v \<Rightarrow> (case snd entry of High \<Rightarrow> v > 50 | Very_high \<Rightarrow> v > 80 | Low \<Rightarrow> v < 20))"

definition points :: "threshold_level \<Rightarrow> real" where
  "points level = (case level of High \<Rightarrow> 20 | Very_high \<Rightarrow> 30 | Low \<Rightarrow> 20)"

definition spec_match_score :: "features \<Rightarrow> signature \<Rightarrow> real" where
  "spec_match_score fs signatures =
     (let matched = filter (crosses_cutoff fs) signatures;
          total = sum_list (map (\<lambda>entry. points (snd entry)) matched)
      in if length matched > 0 then total * (1 + (1 / 10) * real (length matched)) else total)"

text \<open>The scores of all attack types, in table order.\<close>

definition all_scores :: "features \<Rightarrow> real list" where
  "all_scores fs = map (\<lambda>entry. calculate_match_score fs (snd entry)) attack_signatures"


section \<open>The agents (src/agents/multi\_agent\_system.py)\<close>

text \<open>
  \<^verbatim>\<open>datetime.now().isoformat()\<close> is read from a clock: \<open>clock k\<close> is the \<open>k\<close>-th reading of one
  pipeline run.  Text built by an f-string is a list of pieces, as above.
\<close>

type_synonym clock = "nat \<Rightarrow> string"

datatype AgentRole = MONITORING | DETECTION | CLASSIFICATION | EXPLANATION | RESPONSE

text \<open>
  A packet dictionary, by the two keys the agents read (\<open>None\<close>: the key is absent), and a
  log event, which the agents only count.
\<close>

record Packet =
  protocol :: "string option"
  packet_size :: "real option"

type_synonym Event = "(string \<times> string) list"

text \<open>
  The dictionaries that travel between the agents; a key that only one of the two
  detection branches writes is optional.
\<close>

record Detection =
  anomaly_score :: real
  index :: "nat option"
  severity :: "string option"
  packet :: "Packet option"
  reason :: "string option"

record Classification =
  detection :: Detection
  attack_type :: string
  confidence :: real
  indicators :: "string list"

record Explanation =
  expl_severity :: string
  expl_attack_type :: string
  expl_confidence :: real
  explanation :: "piece list"
  recommendations :: "string list"

record DataSummary =
  packet_count :: nat
  event_count :: nat
  protocols :: "(string \<times> nat) list"
  timestamps :: "string list"

datatype Content =
    Raw_data "Packet list" "Event list" DataSummary
  | Anomalies "Detection list" nat string
  | Classifications "Classification list" string
  | Explanations "Explanation list" string

record Message =
  sender :: string
  recipient :: string
  message_type :: string
  content :: Content
  timestamp :: string

text \<open>\<^verbatim>\<open>content.get('detections', [])\<close> and its two siblings.\<close>

definition get_detections :: "Content \<Rightarrow> Detection list" where
  "get_detections c = (case c of Anomalies ds n t \<Rightarrow> ds | _ \<Rightarrow> [])"

definition get_classifications :: "Content \<Rightarrow> Classification list" where
  "get_classifications c = (case c of Classifications cs t \<Rightarrow> cs | _ \<Rightarrow> [])"

definition get_explanations :: "Content \<Rightarrow> Explanation list" where
  "get_explanations c = (case c of Explanations es t \<Rightarrow> es | _ \<Rightarrow> [])"

text \<open>
  The base class.  Of its fields the pipeline reads \<open>agent_id\<close> and writes \<open>status\<close>;
  \<open>messages\<close> grows only through \<^verbatim>\<open>receive_message\<close>.
\<close>

record SecurityAgent =
  agent_id :: string
  role :: AgentRole
  messages :: "Message list"
  status :: string

record DetectionAgent = SecurityAgent +
  anomaly_threshold :: real

definition SecurityAgent_init :: "string \<Rightarrow> AgentRole \<Rightarrow> SecurityAgent" where
  "SecurityAgent_init aid r = \<lparr>agent_id = aid, role = r, messages = [], status = ''idle''\<rparr>"

definition DetectionAgent_init :: DetectionAgent where
  "DetectionAgent_init =
     \<lparr>agent_id = ''detect-agent'', role = DETECTION, messages = [], status = ''idle'',
      anomaly_threshold = 7 / 10\<rparr>"

definition receive_message :: "SecurityAgent \<Rightarrow> Message \<Rightarrow> SecurityAgent" where
  "receive_message self msg = self\<lparr>messages := messages self @ [msg]\<rparr>"

definition send_message :: "string \<Rightarrow> string \<Rightarrow> string \<Rightarrow> Content \<Rightarrow> string \<Rightarrow> Message" where
  "send_message self_id to mtype c now =
     \<lparr>sender = self_id, recipient = to, message_type = mtype, content = c, timestamp = now\<rparr>"

subsection \<open>MonitoringAgent\<close>

text \<open>The protocol histogram: \<^verbatim>\<open>protocols[p] = protocols.get(p, 0) + 1\<close> for every packet.\<close>

definition count_protocol :: "Packet \<Rightarrow> (string \<times> nat) list \<Rightarrow> (string \<times> nat) list" where
  "count_protocol p hist =
     (let name = (case protocol p of None \<Rightarrow> ''Unknown'' | Some x \<Rightarrow> x) in
      AList.update name ((case map_of hist name of None \<Rightarrow> 0 | Some c \<Rightarrow> c) + 1) hist)"

definition collect_data ::
  "SecurityAgent \<Rightarrow> Packet list \<Rightarrow> Event list \<Rightarrow> string \<Rightarrow> SecurityAgent \<times> Message" where
  "collect_data self packets events now =
     (let data_summary =
            \<lparr>packet_count = length packets, event_count = length events,
             protocols = fold count_protocol packets [], timestamps = []\<rparr>
      in (self\<lparr>status := ''idle''\<rparr>,
          send_message (agent_id self) ''detect-agent'' ''raw_data''
            (Raw_data packets events data_summary) now))"

subsection \<open>DetectionAgent\<close>

text \<open>
  The branch for precomputed scores: a detection for every score above the agent's
  threshold, CRITICAL above 0.9 and WARNING otherwise.
\<close>

definition detect_from_scores :: "real \<Rightarrow> real list \<Rightarrow> Detection list" where
  "detect_from_scores threshold anomaly_scores =
     map (\<lambda>(i, score).
            \<lparr>anomaly_score = score, index = Some i,
             severity = Some (if score > 9 / 10 then ''CRITICAL'' else ''WARNING''),
             packet = None, reason = None\<rparr>)
         (filter (\<lambda>(i, score). score > threshold) (enumerate 0 anomaly_scores))"

text \<open>The branch without scores: the three-sigma rule on the packet sizes.\<close>

definition size_of :: "Packet \<Rightarrow> real" where
  "size_of p = (case packet_size p of None \<Rightarrow> 0 | Some s \<Rightarrow> s)"

definition detect_from_packets :: "Packet list \<Rightarrow> Detection list" where
  "detect_from_packets packets =
     (if packets = [] then []
      else
        (let packet_sizes = map size_of packets;
             mean_size = np_mean packet_sizes;
             std_size = np_std packet_sizes
         in map (\<lambda>p. \<lparr>anomaly_score = min 1 (\<bar>(size_of p - mean_size) / (std_size + eps)\<bar> / 5),
                        index = None, severity = None, packet = Some p,
                        reason = Some ''Unusual packet size''\<rparr>)
              (filter (\<lambda>p. \<bar>(size_of p - mean_size) / (std_size + eps)\<bar> > 3) packets)))"

definition process_data ::
  "DetectionAgent \<Rightarrow> Packet list \<Rightarrow> Event list \<Rightarrow> real list option \<Rightarrow> string \<Rightarrow> string
     \<Rightarrow> DetectionAgent \<times> Message" where
  "process_data self packets events anomaly_scores now_content now_msg =
     (let detections =
            (case anomaly_scores of
               Some scores \<Rightarrow> detect_from_scores (anomaly_threshold self) scores
             | None \<Rightarrow> detect_from_packets packets)
      in (self\<lparr>status := ''idle''\<rparr>,
          send_message (agent_id self) ''classify-agent'' ''anomalies_detected''
            (Anomalies detections (length detections) now_content) now_msg))"

subsection \<open>ClassificationAgent\<close>

definition classify_single :: "Detection \<Rightarrow> features option \<Rightarrow> Classification" where
  "classify_single d fs =
     (let score = anomaly_score d in
      if score > 95 / 100
      then \<lparr>detection = d, attack_type = ''DoS Attack'', confidence = min 1 (score * (11 / 10)),
            indicators = [''high_packet_rate'', ''packet_flood'']\<rparr>
      else if score > 8 / 10
      then \<lparr>detection = d, attack_type = ''Port Scan'', confidence = score,
            indicators = [''multiple_ports'', ''syn_flood'']\<rparr>
      else \<lparr>detection = d, attack_type = ''Anomalous Traffic'', confidence = score,
            indicators = [''unusual_pattern'']\<rparr>)"

definition classify_attacks ::
  "SecurityAgent \<Rightarrow> Detection list \<Rightarrow> features option \<Rightarrow> string \<Rightarrow> string
     \<Rightarrow> SecurityAgent \<times> Message" where
  "classify_attacks self detections fs now_content now_msg =
     (self\<lparr>status := ''idle''\<rparr>,
      send_message (agent_id self) ''explain-agent'' ''classifications_ready''
        (Classifications (map (\<lambda>d. classify_single d fs) detections) now_content) now_msg)"

subsection \<open>ExplanationAgent\<close>

text \<open>\<^verbatim>\<open>', '.join(indicators)\<close>.\<close>

fun join :: "string \<Rightarrow> string list \<Rightarrow> string" where
  "join sep [] = []"
| "join sep [x] = x"
| "join sep (x # y # ys) = x @ sep @ join sep (y # ys)"

definition get_recommendations :: "string \<Rightarrow> string list" where
  "get_recommendations atk =
     (case map_of
        [(''Port Scan'',
            [''Review firewall rules'', ''Monitor source IP for further activity'',
             ''Consider implementing port knocking'']),
         (''Brute Force'',
            [''Implement rate limiting'', ''Enforce password policies'',
             ''Enable MFA on affected accounts'']),
         (''SQL Injection'',
            [''Review application code for input validation'',
             ''Update database access controls'', ''Implement parameterized queries'']),
         (''DoS Attack'',
            [''Activate DDoS mitigation'', ''Block source IP addresses'',
             ''Scale infrastructure capacity'']),
         (''Data Exfiltration'',
            [''Block source IP immediately'', ''Review data access logs'',
             ''Implement data loss prevention''])] atk of
        Some r \<Rightarrow> r
      | None \<Rightarrow> [''Investigate further'', ''Collect forensic evidence'',
                  ''Update security policies''])"

text \<open>\<open>NL\<close> stands for the line break of the source text.\<close>

definition NL :: piece where
  "NL = Txt [CHR 0x0A]"

definition generate_explanation :: "Classification \<Rightarrow> Explanation" where
  "generate_explanation c =
     (let conf = confidence c in
      \<lparr>expl_severity =
         (if conf > 9 / 10 then ''CRITICAL'' else if conf > 7 / 10 then ''WARNING'' else ''INFO''),
       expl_attack_type = attack_type c,
       expl_confidence = conf,
       explanation =
         [Txt ''Detected '', Txt (attack_type c), Txt '' attack with '', Num 1 (conf * 100),
          Txt ''% confidence.'', NL,
          Txt ''Indicators: '', Txt (join '', '' (indicators c)), NL]
         @ (if conf > 9 / 10
            then [Txt ''This is a critical threat requiring immediate action.'']
            else if conf > 7 / 10
            then [Txt ''Recommend immediate investigation and monitoring.'']
            else []),
       recommendations = get_recommendations (attack_type c)\<rparr>)"

definition generate_explanations ::
  "SecurityAgent \<Rightarrow> Classification list \<Rightarrow> string \<Rightarrow> string \<Rightarrow> SecurityAgent \<times> Message" where
  "generate_explanations self classifications now_content now_msg =
     (self\<lparr>status := ''idle''\<rparr>,
      send_message (agent_id self) ''response-agent'' ''explanations_generated''
        (Explanations (map generate_explanation classifications) now_content) now_msg)"

subsection \<open>ResponseAgent\<close>

record Action =
  act_timestamp :: string
  act_severity :: string
  alert_type :: string
  act_confidence :: real
  act_explanation :: "piece list"
  recommended_actions :: "string list"
  automated_actions :: "string list"

record Alert =
  alert_kind :: string
  alert_severity :: string
  alert_confidence :: real
  alert_explanation :: "piece list"

record Response =
  response_timestamp :: string
  total_threats :: nat
  actions :: "Action list"
  alerts :: "Alert list"
  response_status :: string

definition get_automated_actions :: "string \<Rightarrow> string list" where
  "get_automated_actions sev =
     (if sev = ''CRITICAL''
      then [''Log all activity'', ''Capture network traffic'', ''Alert security team'',
            ''Prepare isolation commands'']
      else if sev = ''WARNING''
      then [''Log activity'', ''Monitor source IP'', ''Alert security team'']
      else [''Log activity'', ''Monitor''])"

text \<open>
  \<^verbatim>\<open>generate_response\<close> reads the clock once per explanation and once more for the
  response itself; \<open>clk\<close> counts from the first of these readings.
\<close>

definition generate_response ::
  "SecurityAgent \<Rightarrow> Explanation list \<Rightarrow> clock \<Rightarrow> SecurityAgent \<times> Response" where
  "generate_response self explanations clk =
     (self\<lparr>status := ''idle''\<rparr>,
      \<lparr>response_timestamp = clk (length explanations),
       total_threats = length explanations,
       actions =
         map (\<lambda>(i, e).
                \<lparr>act_timestamp = clk i, act_severity = expl_severity e,
                 alert_type = expl_attack_type e, act_confidence = expl_confidence e,
                 act_explanation = explanation e, recommended_actions = recommendations e,
                 automated_actions = get_automated_actions (expl_severity e)\<rparr>)
             (enumerate 0 explanations),
       alerts =
         map (\<lambda>e. \<lparr>alert_kind = expl_attack_type e, alert_severity = expl_severity e,
                    alert_confidence = expl_confidence e,
                    alert_explanation = explanation e\<rparr>)
             explanations,
       response_status = ''READY_FOR_EXECUTION''\<rparr>)"

subsection \<open>MultiAgentSystem\<close>

record MultiAgentSystem =
  monitoring_agent :: SecurityAgent
  detection_agent :: DetectionAgent
  classification_agent :: SecurityAgent
  explanation_agent :: SecurityAgent
  response_agent :: SecurityAgent
  message_queue :: "Message list"

definition MultiAgentSystem_init :: MultiAgentSystem where
  "MultiAgentSystem_init =
     \<lparr>monitoring_agent = SecurityAgent_init ''monitor-agent'' MONITORING,
      detection_agent = DetectionAgent_init,
      classification_agent = SecurityAgent_init ''classify-agent'' CLASSIFICATION,
      explanation_agent = SecurityAgent_init ''explain-agent'' EXPLANATION,
      response_agent = SecurityAgent_init ''response-agent'' RESPONSE,
      message_queue = []\<rparr>"

text \<open>The list \<^verbatim>\<open>self.agents\<close>, by the identifiers of its five members.\<close>

definition agents :: "MultiAgentSystem \<Rightarrow> string list" where
  "agents self =
     [agent_id (monitoring_agent self), agent_id (detection_agent self),
      agent_id (classification_agent self), agent_id (explanation_agent self),
      agent_id (response_agent self)]"

text \<open>The dictionary that \<^verbatim>\<open>process_threat\<close> returns; the early return writes three keys.\<close>

record PipelineResult =
  result_status :: string
  threat_detected :: bool
  result_message :: "string option"
  pipeline_messages :: "nat option"
  agents_involved :: "nat option"
  response :: "Response option"

text \<open>
  \<^verbatim>\<open>process_threat\<close>: the five stages in order, every message appended to
  \<open>message_queue\<close>, with the early return when the detection list is empty.
\<close>

definition process_threat ::
  "MultiAgentSystem \<Rightarrow> Packet list \<Rightarrow> Event list \<Rightarrow> real list option \<Rightarrow> features option
     \<Rightarrow> clock \<Rightarrow> MultiAgentSystem \<times> PipelineResult" where
  "process_threat self packets events anomaly_scores fs clk =
     (case collect_data (monitoring_agent self) packets events (clk 0) of
        (mon, msg1) \<Rightarrow>
     (case process_data (detection_agent self) packets events anomaly_scores (clk 1) (clk 2) of
        (det, msg2) \<Rightarrow>
     (let self2 = self\<lparr>monitoring_agent := mon, detection_agent := det,
                       message_queue := message_queue self @ [msg1, msg2]\<rparr>;
          detections = get_detections (content msg2)
      in if detections = []
         then (self2,
               \<lparr>result_status = ''NORMAL'', threat_detected = False,
                result_message = Some ''No threats detected'', pipeline_messages = None,
                agents_involved = None, response = None\<rparr>)
         else
     (case classify_attacks (classification_agent self2) detections fs (clk 3) (clk 4) of
        (cls, msg3) \<Rightarrow>
     (case generate_explanations (explanation_agent self2)
             (get_classifications (content msg3)) (clk 5) (clk 6) of
        (exa, msg4) \<Rightarrow>
     (case generate_response (response_agent self2)
             (get_explanations (content msg4)) (\<lambda>i. clk (7 + i)) of
        (rsa, resp) \<Rightarrow>
     (let self3 = self2\<lparr>classification_agent := cls, explanation_agent := exa,
                        response_agent := rsa,
                        message_queue := message_queue self2 @ [msg3, msg4]\<rparr>
      in (self3,
          \<lparr>result_status = ''THREATS_DETECTED'', threat_detected = True,
           result_message = None,
           pipeline_messages = Some (length (message_queue self3)),
           agents_involved = Some (length (agents self3)),
           response = Some resp\<rparr>))))))))"

text \<open>\<^verbatim>\<open>get_system_status\<close>, by its count of the messages processed so far.\<close>

definition messages_processed :: "MultiAgentSystem \<Rightarrow> nat" where
  "messages_processed self = length (message_queue self)"

text \<open>A clock for the examples.\<close>

definition example_clock :: clock where
  "example_clock k = ''t''"

section \<open>Concrete inputs\<close>

text \<open>A detector as \<^verbatim>\<open>AnomalyDetector()\<close> leaves it.\<close>

definition untrained_detector :: AnomalyDetector where
  "untrained_detector =
     \<lparr>contamination_ratio = 1 / 10, isolation_forest = None, baseline_stats = None,
      trained = False\<rparr>"

text \<open>
  A fitted forest by the one behaviour that matters below: as scikit-learn's input check
  does, it raises on a batch without rows; on other batches it answers with some
  prediction and some score per row.
\<close>

definition example_forest :: IsolationForest where
  "example_forest =
     \<lparr>predict = (\<lambda>X. if X = [] then Inl ValueError else Inr (map (\<lambda>row. 1) X)),
      score_samples = (\<lambda>X. if X = [] then Inl ValueError else Inr (map (\<lambda>row. - (1 / 2)) X))\<rparr>"

text \<open>The detector after \<^verbatim>\<open>fit_isolation_forest\<close> alone.\<close>

definition forest_detector :: AnomalyDetector where
  "forest_detector = untrained_detector\<lparr>isolation_forest := Some example_forest, trained := True\<rparr>"

text \<open>The first entry of the signature table, and the feature map of the port-scan scenario.\<close>

definition port_scan_signature :: signature where
  "port_scan_signature =
     [(''unique_dst_ports'', High), (''packet_rate'', High), (''syn_count'', High)]"

definition portscan_features :: features where
  "portscan_features = [''syn_count'' \<mapsto> 90, ''unique_dst_ports'' \<mapsto> 70]"

section \<open>Properties of the anomaly detector\<close>

lemma collect_Inr_length: "collect rs = Inr xs \<Longrightarrow> length xs = length rs"
  by (induction rs arbitrary: xs rule: collect.induct) (auto split: sum.splits)


lemma normalize_scores_isl: "isl (normalize_scores scores) \<longleftrightarrow> scores = []"
  by (cases scores) (auto simp: normalize_scores_def split: sum.splits)

lemma normalize_scores_length: "normalize_scores scores = Inr n \<Longrightarrow> length n = length scores"
  by (auto simp: normalize_scores_def split: sum.splits)

lemma iadd_scaled_length: "iadd_scaled acc w s = Inr acc' \<Longrightarrow> length acc' = length acc"
  by (auto simp: iadd_scaled_def split: if_splits)

lemma fuse_total:
  assumes "\<forall>(m, s)\<in>set ms. length s = length acc \<or> length s = 1"
  shows "\<exists>r. fuse ws ms acc t = Inr r"
  using assms
proof (induction ws ms acc t rule: fuse.induct)
  case (2 ws name scores rest ensemble_scores total_weight)
  then show ?case by (auto simp: iadd_scaled_def split: sum.splits)
qed simp

lemma broadcast_rows_length: "broadcast_rows f X v = Inr D \<Longrightarrow> length D = length X"
  by (auto simp: broadcast_rows_def dest: collect_Inr_length)

lemma statistical_scores_length: "statistical_scores b X = Inr s \<Longrightarrow> length s = length X"
  by (auto simp: statistical_scores_def np_fmax_axis1_def split: sum.splits
           dest!: collect_Inr_length broadcast_rows_length)

lemma mad_scores_length: "mad_scores b X = Inr s \<Longrightarrow> length s = length X"
  by (auto simp: mad_scores_def np_fmax_axis1_def split: sum.splits
           dest!: collect_Inr_length broadcast_rows_length)

lemma detect_statistical_length:
  "detect_statistical self X = [] \<or> length (detect_statistical self X) = length X"
  by (auto simp: detect_statistical_def split: option.splits sum.splits
           dest: statistical_scores_length)

lemma detect_mad_length:
  "detect_mad self X = [] \<or> length (detect_mad self X) = length X"
  by (auto simp: detect_mad_def split: option.splits sum.splits dest: mad_scores_length)

lemma method_scores_of_no_forest:
  assumes "isolation_forest self = None"
  shows "\<exists>ms. method_scores_of self X = Inr ms \<and> (\<forall>(m, s)\<in>set ms. length s = length X)"
proof -
  have n: "\<exists>n. normalize_scores s = Inr n \<and> length n = length s" if "s \<noteq> []" for s
    using that normalize_scores_isl[of s] normalize_scores_length[of s]
    by (cases "normalize_scores s") auto
  show ?thesis
    using assms detect_statistical_length[of self X] detect_mad_length[of self X]
      n[of "detect_statistical self X"] n[of "detect_mad self X"]
    by (auto simp: method_scores_of_def Let_def)
qed

text \<open>
  Without a forest \<^verbatim>\<open>ensemble_detection\<close> returns for every batch and every state of the
  baseline: the two statistical paths look at the size of their scores first.
\<close>

lemma ensemble_detection_no_forest_returns:
  assumes "isolation_forest self = None"
  shows "\<exists>r. ensemble_detection self X weights = Inr r"
proof -
  obtain ms where ms: "method_scores_of self X = Inr ms"
    and len: "\<forall>(m, s)\<in>set ms. length s = length X"
    using method_scores_of_no_forest[OF assms] by blast
  have "\<forall>(m, s)\<in>set ms. length s = length (replicate (length X) (Fin 0)) \<or> length s = 1"
    using len by auto
  from fuse_total[OF this] obtain r where
    "fuse (case weights of None \<Rightarrow> default_weights | Some w \<Rightarrow> w) ms
       (replicate (length X) (Fin 0)) 0 = Inr r"
    by blast
  then show ?thesis
    using ms by (auto simp: ensemble_detection_def Let_def split: prod.splits)
qed

text \<open>With neither forest nor baseline no detector produces output and the scores are zero.\<close>

lemma ensemble_detection_untrained:
  assumes "isolation_forest self = None" "baseline_stats self = None"
  shows "ensemble_detection self X weights = Inr (replicate (length X) (Fin 0), [])"
  using assms
  by (simp add: ensemble_detection_def method_scores_of_def detect_statistical_def
      detect_mad_def)

lemma empty_batch_scores:
  "detect_statistical self [] = []" "detect_mad self [] = []"
  by (simp_all add: detect_statistical_def detect_mad_def statistical_scores_def mad_scores_def
      broadcast_rows_def np_fmax_axis1_def split: option.splits)

lemma forest_scores_of_empty_batch:
  assumes "isolation_forest self = Some forest"
    and "isl (predict forest []) \<or> isl (score_samples forest [])
         \<or> score_samples forest [] = Inr []"
  shows "snd (detect_isolation_forest self []) = []"
  using assms by (auto simp: detect_isolation_forest_def split: sum.splits)

text \<open>
  Claim C1, where the code falls short of it.  With an isolation forest present,
  \<^verbatim>\<open>ensemble_detection\<close> raises on the empty batch instead of returning scores in
  \<open>[0, 1]\<close>: the forest has no score for a batch without rows (scikit-learn raises there,
  which \<^verbatim>\<open>detect_isolation_forest\<close> turns into empty arrays), and the maximum of the empty
  array is taken without the size check that the statistical and the MAD path make.
\<close>

theorem ensemble_detection_raises_on_empty_batch:
  assumes "isolation_forest self = Some forest"
    and "isl (predict forest []) \<or> isl (score_samples forest [])
         \<or> score_samples forest [] = Inr []"
  shows "ensemble_detection self [] weights = Inl ValueError"
  using assms(1) forest_scores_of_empty_batch[OF assms]
  by (simp add: ensemble_detection_def method_scores_of_def normalize_scores_def)

text \<open>
  Claim C1, at a detector whose forest raises on a batch without rows, and, for contrast,
  at the detector without a forest, where the empty batch gives the empty result.
\<close>

theorem ensemble_detection_raises_on_empty_batch_witness:
  "isolation_forest forest_detector = Some example_forest
   \<and> isl (predict example_forest [])
   \<and> ensemble_detection forest_detector [] None = Inl ValueError
   \<and> ensemble_detection untrained_detector [] None = Inr ([], [])"
proof -
  have f: "isolation_forest forest_detector = Some example_forest"
    by (simp add: forest_detector_def)
  have p: "isl (predict example_forest [])"
    by (simp add: example_forest_def)
  then have h: "isl (predict example_forest []) \<or> isl (score_samples example_forest [])
         \<or> score_samples example_forest [] = Inr []"
    by blast
  have u: "ensemble_detection untrained_detector [] None = Inr ([], [])"
    by (simp add: ensemble_detection_untrained untrained_detector_def)
  show ?thesis
    using f p u ensemble_detection_raises_on_empty_batch [OF f h, of None] by simp
qed



































text \<open>
  Claim C7.  Before any fit, the detectors return empty results: \<^verbatim>\<open>detect_statistical\<close> and
  \<^verbatim>\<open>detect_mad\<close> without a baseline return the empty array, and
  \<^verbatim>\<open>detect_isolation_forest\<close> without a model returns two empty arrays.  (Their result types
  carry no exception: every failure inside them is caught.)
\<close>

theorem detectors_before_fit_return_empty:
  "(baseline_stats self = None \<longrightarrow> detect_statistical self X = [] \<and> detect_mad self X = [])
   \<and> (isolation_forest self = None \<longrightarrow> detect_isolation_forest self X = ([], []))
   \<and> (AnomalyDetector_init ratio = Inr self \<longrightarrow>
        detect_statistical self X = [] \<and> detect_mad self X = []
        \<and> detect_isolation_forest self X = ([], []))"
  by (auto simp: detect_statistical_def detect_mad_def detect_isolation_forest_def
      AnomalyDetector_init_def)

text \<open>Claim C7, at a freshly constructed detector and a batch of two samples.\<close>

theorem detectors_before_fit_return_empty_witness:
  "AnomalyDetector_init (1 / 10) = Inr untrained_detector
   \<and> detect_statistical untrained_detector [[1, 2], [3, 4]] = []
   \<and> detect_mad untrained_detector [[1, 2], [3, 4]] = []
   \<and> detect_isolation_forest untrained_detector [[1, 2], [3, 4]] = ([], [])"
proof -
  have i: "AnomalyDetector_init (1 / 10) = Inr untrained_detector"
    by (simp add: AnomalyDetector_init_def untrained_detector_def)
  show ?thesis
    using i detectors_before_fit_return_empty [of untrained_detector "[[1, 2], [3, 4]]" "1 / 10"] by simp
qed

text \<open>
  Claim C4.  \<^verbatim>\<open>classify_anomaly\<close> is monotone in the order \<open>NORMAL < WARNING < CRITICAL\<close>:
  a larger score never gets a lower severity, whatever the two thresholds are.  With the
  default thresholds 0.9 and 0.7, the score 0.95 is CRITICAL, 0.75 is WARNING and 0.3 is
  NORMAL.
\<close>

theorem classify_anomaly_monotone:
  assumes "score1 < score2"
  shows "severity_rank (fst (classify_anomaly score1 critical_threshold warning_threshold))
           \<le> severity_rank (fst (classify_anomaly score2 critical_threshold warning_threshold))
       \<and> fst (classify_anomaly 0.95 0.9 0.7) = ''CRITICAL''
       \<and> fst (classify_anomaly 0.75 0.9 0.7) = ''WARNING''
       \<and> fst (classify_anomaly 0.3 0.9 0.7) = ''NORMAL''"
  using assms by (simp add: classify_anomaly_def severity_rank_def)

text \<open>Claim C4, at the scores 0.75 and 0.95 with the default thresholds.\<close>

theorem classify_anomaly_monotone_witness:
  "(0.75 :: real) < 0.95
   \<and> severity_rank (fst (classify_anomaly 0.75 0.9 0.7)) = 1
   \<and> severity_rank (fst (classify_anomaly 0.95 0.9 0.7)) = 2"
proof -
  have h: "(0.75 :: real) < 0.95" by simp
  show ?thesis
    using h classify_anomaly_monotone [OF h, of "0.9" "0.7"]
    by (simp add: classify_anomaly_def severity_rank_def)
qed

section \<open>Properties of the attack-type classifier\<close>


lemma match_loop_spec:
  "match_loop fs sig score matches =
     (score + sum_list (map (\<lambda>entry. points (snd entry)) (filter (crosses_cutoff fs) sig)),
      matches + length (filter (crosses_cutoff fs) sig))"
  by (induction fs sig score matches rule: match_loop.induct)
     (auto simp: crosses_cutoff_def points_def split: option.splits threshold_level.splits)

lemma calculate_match_score_spec: "calculate_match_score fs sig = spec_match_score fs sig"
  by (simp add: calculate_match_score_def spec_match_score_def match_loop_spec Let_def)

lemma points_nonneg: "0 \<le> points l"
  by (cases l) (simp_all add: points_def)

lemma calculate_match_score_nonneg: "0 \<le> calculate_match_score fs sig"
proof -
  have "0 \<le> sum_list (map (\<lambda>entry. points (snd entry)) (filter (crosses_cutoff fs) sig))"
    by (intro sum_list_nonneg) (auto simp: points_nonneg)
  then show ?thesis
    by (simp add: calculate_match_score_spec spec_match_score_def Let_def)
qed

lemma classify_loop_score:
  "fst (snd (classify_loop fs table bm bs details))
     = fold max (map (\<lambda>entry. calculate_match_score fs (snd entry)) table) bs"
  by (induction fs table bm bs details rule: classify_loop.induct) (auto simp: Let_def max_def)

lemma classify_loop_details:
  "snd (snd (classify_loop fs table bm bs details))
     = details @ map (\<lambda>entry. (fst entry, calculate_match_score fs (snd entry))) table"
  by (induction fs table bm bs details rule: classify_loop.induct) (auto simp: Let_def)

lemma classify_loop_no_update:
  assumes "\<forall>entry\<in>set table. calculate_match_score fs (snd entry) \<le> bs"
  shows "fst (classify_loop fs table bm bs details) = bm
       \<and> fst (snd (classify_loop fs table bm bs details)) = bs"
  using assms
  by (induction fs table bm bs details rule: classify_loop.induct) (auto simp: Let_def)

lemma classify_loop_strict_best:
  assumes "(a, sig) \<in> set table" "bs < calculate_match_score fs sig"
    and "\<forall>entry\<in>set table. entry \<noteq> (a, sig) \<longrightarrow>
            calculate_match_score fs (snd entry) < calculate_match_score fs sig"
  shows "fst (classify_loop fs table bm bs details) = Some a
       \<and> fst (snd (classify_loop fs table bm bs details)) = calculate_match_score fs sig"
  using assms
proof (induction fs table bm bs details rule: classify_loop.induct)
  case (1 fs best_match best_score details)
  then show ?case by simp
next
  case (2 fs attack_name signatures rest best_match best_score details)
  show ?case
  proof (cases "(attack_name, signatures) = (a, sig)")
    case True
    have "\<forall>entry\<in>set rest. calculate_match_score fs (snd entry) \<le> calculate_match_score fs sig"
      using "2.prems"(3) by (metis less_imp_le order_refl list.set_intros(2) snd_conv)
    then show ?thesis
      using True "2.prems"(2) classify_loop_no_update[of rest fs "calculate_match_score fs sig"]
      by (simp add: Let_def)
  next
    case False
    then have mem: "(a, sig) \<in> set rest" using "2.prems"(1) by auto
    have lt: "calculate_match_score fs signatures < calculate_match_score fs sig"
      using "2.prems"(3) False by auto
    have rest: "\<forall>entry\<in>set rest. entry \<noteq> (a, sig) \<longrightarrow>
            calculate_match_score fs (snd entry) < calculate_match_score fs sig"
      using "2.prems"(3) by auto
    show ?thesis
    proof (cases "calculate_match_score fs signatures > best_score")
      case True
      then show ?thesis using "2.IH"(1)[OF refl True mem lt rest] by (simp add: Let_def)
    next
      case False
      then show ?thesis using "2.IH"(2)[OF refl False mem "2.prems"(2) rest] by (simp add: Let_def)
    qed
  qed
qed


lemma fold_max_Max: "fold max xs (b::real) = Max (set (b # xs))"
  by (simp add: Max.set_eq_fold del: set_simps)

lemma all_scores_nonneg: "\<forall>x\<in>set (all_scores fs). 0 \<le> x"
  by (auto simp: all_scores_def calculate_match_score_nonneg)

lemma all_scores_nonempty: "all_scores fs \<noteq> []"
  by (simp add: all_scores_def attack_signatures_def)

lemma classify_confidence:
  "fst (snd (classify fs t)) = min 1 (Max (set (all_scores fs)) / 100)"
proof -
  have "fst (snd (classify_loop fs attack_signatures None 0 [])) = Max (set (0 # all_scores fs))"
    by (simp only: classify_loop_score fold_max_Max all_scores_def)
  also have "\<dots> = Max (set (all_scores fs))"
  proof -
    obtain x where x: "x \<in> set (all_scores fs)"
      using all_scores_nonempty[of fs] by (cases "all_scores fs") auto
    then have "0 \<le> Max (set (all_scores fs))"
      using all_scores_nonneg[of fs] by (meson List.finite_set Max_ge order_trans)
    moreover have "set (all_scores fs) \<noteq> {}" using x by auto
    ultimately show ?thesis by (simp add: Max_insert max_def)
  qed
  finally show ?thesis
    by (auto simp: classify_def Let_def split: prod.splits)
qed

lemma scenario:
  assumes "fs ''syn_count'' = Some 90" "fs ''unique_dst_ports'' = Some 70"
    and "\<forall>entry\<in>set attack_signatures. \<forall>e\<in>set (snd entry).
           crosses_cutoff fs e \<longrightarrow> fst e = ''syn_count'' \<or> fst e = ''unique_dst_ports''"
  shows "match_loop fs port_scan_signature 0 0 = (40, 2)"
    and "calculate_match_score fs port_scan_signature = 48"
    and "all_scores fs = [48, 0, 0, 0, 0, 0, 0, 0]"
proof -
  have c: "crosses_cutoff fs (''syn_count'', High)" "crosses_cutoff fs (''unique_dst_ports'', High)"
    using assms(1,2) by (simp_all add: crosses_cutoff_def)
  have n: "\<not> crosses_cutoff fs (''packet_rate'', High)"
    "\<not> crosses_cutoff fs (''failed_login_count'', High)"
    "\<not> crosses_cutoff fs (''warning_ratio'', High)"
    "\<not> crosses_cutoff fs (''sql_injection_count'', High)"
    "\<not> crosses_cutoff fs (''suspicious_command_count'', High)"
    "\<not> crosses_cutoff fs (''packet_rate'', Very_high)"
    "\<not> crosses_cutoff fs (''packet_count'', Very_high)"
    "\<not> crosses_cutoff fs (''avg_payload_size'', High)"
    "\<not> crosses_cutoff fs (''unique_dst_ips'', High)"
    "\<not> crosses_cutoff fs (''port_scan_count'', High)"
    "\<not> crosses_cutoff fs (''privilege_escalation_count'', High)"
    "\<not> crosses_cutoff fs (''access_violation_count'', High)"
    "\<not> crosses_cutoff fs (''critical_ratio'', Low)"
    "\<not> crosses_cutoff fs (''warning_ratio'', Low)"
    using assms(3) by (simp_all add: attack_signatures_def)
  show "match_loop fs port_scan_signature 0 0 = (40, 2)"
    using c n by (simp add: match_loop_spec port_scan_signature_def points_def)
  show "calculate_match_score fs port_scan_signature = 48"
    using c n by (simp add: calculate_match_score_spec spec_match_score_def port_scan_signature_def points_def)
  show "all_scores fs = [48, 0, 0, 0, 0, 0, 0, 0]"
    using c n by (simp add: all_scores_def attack_signatures_def calculate_match_score_spec spec_match_score_def points_def)
qed

lemma classify_eq:
  "classify fs t =
     (let r = classify_loop fs attack_signatures None 0 [];
          confidence = min 1 (fst (snd r) / 100)
      in (if confidence < t then Some ''Unknown Attack'' else fst r, confidence, snd (snd r)))"
  by (simp add: classify_def Let_def split: prod.splits)

lemma port_scan_in_table: "(''Port Scan'', port_scan_signature) \<in> set attack_signatures"
  by (simp add: attack_signatures_def port_scan_signature_def)

lemma other_entry_exists: "\<exists>entry\<in>set attack_signatures. entry \<noteq> (a, sg)"
proof (cases "a = ''Port Scan''")
  case True
  then have "(''Brute Force'', [(''failed_login_count'', High), (''warning_ratio'', High)]) \<noteq> (a, sg)"
    by simp
  moreover have "(''Brute Force'', [(''failed_login_count'', High), (''warning_ratio'', High)])
      \<in> set attack_signatures"
    by (simp add: attack_signatures_def)
  ultimately show ?thesis by blast
next
  case False
  then have "(''Port Scan'', port_scan_signature) \<noteq> (a, sg)" by simp
  then show ?thesis using port_scan_in_table by blast
qed

lemma classify_loop_best:
  assumes "(a, sg) \<in> set attack_signatures"
    and "\<forall>entry\<in>set attack_signatures. entry \<noteq> (a, sg) \<longrightarrow>
           calculate_match_score fs (snd entry) < calculate_match_score fs sg"
  shows "fst (classify_loop fs attack_signatures None 0 []) = Some a"
proof -
  obtain entry where "entry \<in> set attack_signatures" "entry \<noteq> (a, sg)"
    using other_entry_exists by blast
  then have "calculate_match_score fs (snd entry) < calculate_match_score fs sg"
    using assms(2) by blast
  then have "0 < calculate_match_score fs sg"
    using calculate_match_score_nonneg[of fs "snd entry"] by linarith
  then show ?thesis using classify_loop_strict_best[OF assms(1) _ assms(2)] by blast
qed

text \<open>
  Claim C2.  The match score of \<^verbatim>\<open>_calculate_match_score\<close> is the sum of the points of the
  signature entries whose cutoff the feature value crosses (20 for \<open>high\<close> above 50, 30 for
  \<open>very_high\<close> above 80, 20 for \<open>low\<close> below 20), times \<open>1 + 0.1 \<times> matches\<close> when there is a
  match; the confidence that \<^verbatim>\<open>classify\<close> returns is the largest score of the table divided
  by 100 and capped at 1; an attack type whose score exceeds every other one is the best
  match.  With \<open>syn_count = 90\<close>, \<open>unique_dst_ports = 70\<close> and no other signature entry
  crossing its cutoff, Port Scan scores 40 points with 2 matches, hence \<open>40 \<times> 1.2 = 48\<close>,
  and is the best match.
\<close>

theorem match_score_and_best_match:
  "calculate_match_score fs sg = spec_match_score fs sg
   \<and> fst (snd (classify fs threshold)) = min 1 (Max (set (all_scores fs)) / 100)
   \<and> ((a, sg) \<in> set attack_signatures
        \<and> (\<forall>entry\<in>set attack_signatures. entry \<noteq> (a, sg) \<longrightarrow>
              calculate_match_score fs (snd entry) < calculate_match_score fs sg)
       \<longrightarrow> fst (classify_loop fs attack_signatures None 0 []) = Some a)
   \<and> (fs ''syn_count'' = Some 90 \<and> fs ''unique_dst_ports'' = Some 70
        \<and> (\<forall>entry\<in>set attack_signatures. \<forall>e\<in>set (snd entry).
              crosses_cutoff fs e \<longrightarrow> fst e = ''syn_count'' \<or> fst e = ''unique_dst_ports'')
       \<longrightarrow> (''Port Scan'', port_scan_signature) \<in> set attack_signatures
         \<and> match_loop fs port_scan_signature 0 0 = (40, 2)
         \<and> calculate_match_score fs port_scan_signature = 40 * (1 + (1 / 10) * 2)
         \<and> all_scores fs = [48, 0, 0, 0, 0, 0, 0, 0]
         \<and> fst (classify_loop fs attack_signatures None 0 []) = Some ''Port Scan''
         \<and> fst (snd (classify fs threshold)) = 48 / 100
         \<and> fst (classify fs threshold)
             = Some (if 48 / 100 < threshold then ''Unknown Attack'' else ''Port Scan''))"
proof (intro conjI impI)
  show "calculate_match_score fs sg = spec_match_score fs sg"
    by (rule calculate_match_score_spec)
  show "fst (snd (classify fs threshold)) = min 1 (Max (set (all_scores fs)) / 100)"
    by (rule classify_confidence)
next
  assume "(a, sg) \<in> set attack_signatures
        \<and> (\<forall>entry\<in>set attack_signatures. entry \<noteq> (a, sg) \<longrightarrow>
              calculate_match_score fs (snd entry) < calculate_match_score fs sg)"
  then show "fst (classify_loop fs attack_signatures None 0 []) = Some a"
    using classify_loop_best by blast
next
  assume h: "fs ''syn_count'' = Some 90 \<and> fs ''unique_dst_ports'' = Some 70
        \<and> (\<forall>entry\<in>set attack_signatures. \<forall>e\<in>set (snd entry).
              crosses_cutoff fs e \<longrightarrow> fst e = ''syn_count'' \<or> fst e = ''unique_dst_ports'')"
  then have h1: "fs ''syn_count'' = Some 90" and h2: "fs ''unique_dst_ports'' = Some 70"
    and h3: "\<forall>entry\<in>set attack_signatures. \<forall>e\<in>set (snd entry).
              crosses_cutoff fs e \<longrightarrow> fst e = ''syn_count'' \<or> fst e = ''unique_dst_ports''"
    by (rule conjunct1, rule conjunct2[THEN conjunct1], rule conjunct2[THEN conjunct2])
  note sc = scenario[OF h1 h2 h3]
  have tbl: "attack_signatures = (''Port Scan'', port_scan_signature) # tl attack_signatures"
    by (simp add: attack_signatures_def port_scan_signature_def)
  have "map (\<lambda>entry. calculate_match_score fs (snd entry)) (tl attack_signatures)
          = tl (all_scores fs)"
    by (simp add: all_scores_def map_tl)
  then have tl0: "map (\<lambda>entry. calculate_match_score fs (snd entry)) (tl attack_signatures)
          = [0, 0, 0, 0, 0, 0, 0]"
    by (simp add: sc(3))
  have le: "\<forall>entry\<in>set (tl attack_signatures). calculate_match_score fs (snd entry) \<le> 48"
  proof
    fix entry assume "entry \<in> set (tl attack_signatures)"
    then have "calculate_match_score fs (snd entry)
        \<in> set (map (\<lambda>entry. calculate_match_score fs (snd entry)) (tl attack_signatures))"
      by auto
    then show "calculate_match_score fs (snd entry) \<le> 48"
      unfolding tl0 by auto
  qed
  have "fst (classify_loop fs attack_signatures None 0 [])
      = fst (classify_loop fs (tl attack_signatures) (Some ''Port Scan'') 48
              [(''Port Scan'', 48)])"
    by (subst tbl) (simp add: sc(2) Let_def)
  then have best: "fst (classify_loop fs attack_signatures None 0 []) = Some ''Port Scan''"
    using classify_loop_no_update[OF le] by simp
  have conf: "fst (snd (classify fs threshold)) = 48 / 100"
    by (simp add: classify_confidence sc(3))
  show "(''Port Scan'', port_scan_signature) \<in> set attack_signatures"
    by (rule port_scan_in_table)
  show "match_loop fs port_scan_signature 0 0 = (40, 2)" by (rule sc(1))
  show "calculate_match_score fs port_scan_signature = 40 * (1 + (1 / 10) * 2)"
    using sc(2) by simp
  show "all_scores fs = [48, 0, 0, 0, 0, 0, 0, 0]" by (rule sc(3))
  show "fst (classify_loop fs attack_signatures None 0 []) = Some ''Port Scan''" by (rule best)
  show "fst (snd (classify fs threshold)) = 48 / 100" by (rule conf)
  show "fst (classify fs threshold)
             = Some (if 48 / 100 < threshold then ''Unknown Attack'' else ''Port Scan'')"
    using conf best by (auto simp: classify_eq Let_def)
qed

lemma portscan_features_hyp:
  "portscan_features ''syn_count'' = Some 90 \<and> portscan_features ''unique_dst_ports'' = Some 70
   \<and> (\<forall>entry\<in>set attack_signatures. \<forall>e\<in>set (snd entry).
        crosses_cutoff portscan_features e \<longrightarrow> fst e = ''syn_count'' \<or> fst e = ''unique_dst_ports'')"
  by (simp add: portscan_features_def attack_signatures_def crosses_cutoff_def)

text \<open>
  Claim C2, at the feature map that holds exactly \<open>syn_count = 90\<close> and
  \<open>unique_dst_ports = 70\<close>.
\<close>

theorem match_score_and_best_match_witness:
  "calculate_match_score portscan_features port_scan_signature = 48
   \<and> fst (classify_loop portscan_features attack_signatures None 0 []) = Some ''Port Scan''
   \<and> fst (classify portscan_features 0.6) = Some ''Unknown Attack''
   \<and> fst (snd (classify portscan_features 0.6)) = 0.48"
  using portscan_features_hyp
    match_score_and_best_match [of portscan_features port_scan_signature "0.6" "''Port Scan''"]
  by simp

text \<open>
  Claim C3.  When the confidence is below the threshold, \<^verbatim>\<open>classify\<close> returns the label
  \<open>Unknown Attack\<close> together with the computed confidence (the best score over 100, capped
  at 1), and that label is no attack name of the signature table.
\<close>

theorem low_confidence_yields_unknown_attack:
  assumes "fst (snd (classify fs confidence_threshold)) < confidence_threshold"
  shows "fst (classify fs confidence_threshold) = Some ''Unknown Attack''
       \<and> fst (snd (classify fs confidence_threshold))
           = min 1 (fst (snd (classify_loop fs attack_signatures None 0 [])) / 100)
       \<and> ''Unknown Attack'' \<notin> fst ` set attack_signatures"
proof -
  have "''Unknown Attack'' \<notin> fst ` set attack_signatures"
    by (simp add: attack_signatures_def)
  then show ?thesis using assms by (simp add: classify_eq Let_def)
qed

text \<open>
  Claim C3, at the port-scan feature map with the default threshold 0.6: the confidence is
  0.48 and the label is \<open>Unknown Attack\<close>.
\<close>

theorem low_confidence_yields_unknown_attack_witness:
  "fst (snd (classify portscan_features 0.6)) = 0.48
   \<and> fst (classify portscan_features 0.6) = Some ''Unknown Attack''"
proof -
  have c: "fst (snd (classify portscan_features 0.6)) = 0.48"
    by (simp add: classify_def attack_signatures_def calculate_match_score_def
        portscan_features_def)
  then have h: "fst (snd (classify portscan_features 0.6)) < 0.6" by simp
  from low_confidence_yields_unknown_attack [OF h]
  have "fst (classify portscan_features 0.6) = Some ''Unknown Attack''" by blast
  with c show ?thesis by blast
qed

section \<open>Properties of the agent pipeline and of the thresholds\<close>

lemma detection_message:
  "snd (process_data self packets events anomaly_scores t1 t2) =
     send_message (agent_id self) ''classify-agent'' ''anomalies_detected''
       (Anomalies
          (case anomaly_scores of
             Some scores \<Rightarrow> detect_from_scores (anomaly_threshold self) scores
           | None \<Rightarrow> detect_from_packets packets)
          (length (case anomaly_scores of
             Some scores \<Rightarrow> detect_from_scores (anomaly_threshold self) scores
           | None \<Rightarrow> detect_from_packets packets)) t1) t2"
  by (simp add: process_data_def Let_def)

lemma process_threat_short:
  assumes "get_detections (content (snd (process_data (detection_agent self) packets events
             anomaly_scores (clk 1) (clk 2)))) = []"
  shows "process_threat self packets events anomaly_scores fs clk =
     (self\<lparr>monitoring_agent := fst (collect_data (monitoring_agent self) packets events (clk 0)),
           detection_agent := fst (process_data (detection_agent self) packets events
                                     anomaly_scores (clk 1) (clk 2)),
           message_queue := message_queue self @
             [snd (collect_data (monitoring_agent self) packets events (clk 0)),
              snd (process_data (detection_agent self) packets events anomaly_scores
                     (clk 1) (clk 2))]\<rparr>,
      \<lparr>result_status = ''NORMAL'', threat_detected = False,
       result_message = Some ''No threats detected'', pipeline_messages = None,
       agents_involved = None, response = None\<rparr>)"
  using assms by (simp add: process_threat_def Let_def case_prod_beta)

lemma process_threat_long:
  assumes "get_detections (content (snd (process_data (detection_agent self) packets events
             anomaly_scores (clk 1) (clk 2)))) \<noteq> []"
  shows "\<exists>msg3 msg4.
      message_queue (fst (process_threat self packets events anomaly_scores fs clk)) =
        message_queue self @
          [snd (collect_data (monitoring_agent self) packets events (clk 0)),
           snd (process_data (detection_agent self) packets events anomaly_scores (clk 1) (clk 2)),
           msg3, msg4]
      \<and> message_type msg3 = ''classifications_ready''
      \<and> message_type msg4 = ''explanations_generated''
      \<and> result_status (snd (process_threat self packets events anomaly_scores fs clk))
          = ''THREATS_DETECTED''
      \<and> threat_detected (snd (process_threat self packets events anomaly_scores fs clk))
      \<and> pipeline_messages (snd (process_threat self packets events anomaly_scores fs clk))
          = Some (length (message_queue self) + 4)
      \<and> agents_involved (snd (process_threat self packets events anomaly_scores fs clk)) = Some 5"
  using assms
  by (simp add: process_threat_def Let_def classify_attacks_def generate_explanations_def
      generate_response_def send_message_def agents_def case_prod_beta)


text \<open>
  Claim C5.  When the detection stage yields an empty detection list, \<^verbatim>\<open>process_threat\<close>
  returns status NORMAL with \<open>threat_detected = False\<close> and no response; the run appends
  exactly the monitoring message and the detection message to the queue, and the
  classification, explanation and response agents are what they were before the run.
\<close>

theorem empty_detections_short_circuit:
  assumes "get_detections (content (snd (process_data (detection_agent self) packets events
             anomaly_scores (clk 1) (clk 2)))) = []"
  shows "result_status (snd (process_threat self packets events anomaly_scores fs clk)) = ''NORMAL''
       \<and> threat_detected (snd (process_threat self packets events anomaly_scores fs clk)) = False
       \<and> response (snd (process_threat self packets events anomaly_scores fs clk)) = None
       \<and> message_queue (fst (process_threat self packets events anomaly_scores fs clk)) =
           message_queue self @
             [snd (collect_data (monitoring_agent self) packets events (clk 0)),
              snd (process_data (detection_agent self) packets events anomaly_scores
                     (clk 1) (clk 2))]
       \<and> map message_type
            [snd (collect_data (monitoring_agent self) packets events (clk 0)),
             snd (process_data (detection_agent self) packets events anomaly_scores
                    (clk 1) (clk 2))]
           = [''raw_data'', ''anomalies_detected'']
       \<and> classification_agent (fst (process_threat self packets events anomaly_scores fs clk))
           = classification_agent self
       \<and> explanation_agent (fst (process_threat self packets events anomaly_scores fs clk))
           = explanation_agent self
       \<and> response_agent (fst (process_threat self packets events anomaly_scores fs clk))
           = response_agent self"
  by (simp add: process_threat_short[OF assms] collect_data_def process_data_def
      send_message_def Let_def)

text \<open>
  Claim C5, at a fresh system with the precomputed scores 0.5 and 0.7 (neither above the
  threshold).
\<close>

theorem empty_detections_short_circuit_witness:
  "get_detections (content (snd (process_data (detection_agent MultiAgentSystem_init) [] []
       (Some [5 / 10, 7 / 10]) (example_clock 1) (example_clock 2)))) = []
   \<and> result_status (snd (process_threat MultiAgentSystem_init [] [] (Some [5 / 10, 7 / 10]) None
        example_clock)) = ''NORMAL''
   \<and> length (message_queue (fst (process_threat MultiAgentSystem_init [] []
        (Some [5 / 10, 7 / 10]) None example_clock))) = 2"
proof -
  have h: "get_detections (content (snd (process_data (detection_agent MultiAgentSystem_init)
       [] [] (Some [5 / 10, 7 / 10]) (example_clock 1) (example_clock 2)))) = []"
    by (simp add: detection_message send_message_def get_detections_def detect_from_scores_def
        MultiAgentSystem_init_def DetectionAgent_init_def enumerate_eq_zip)
  have q: "message_queue MultiAgentSystem_init = []"
    by (simp add: MultiAgentSystem_init_def)
  show ?thesis
    using h q empty_detections_short_circuit [OF h, of None] by simp
qed

text \<open>
  Claim C8 as stated fails: after one run with a detection the queue of a fresh system
  holds that run's four messages, and a second run on the same system reports
  \<open>pipeline_messages = 8\<close>.
\<close>

theorem pipeline_messages_accumulate_counterexample:
  "length (message_queue (fst (process_threat MultiAgentSystem_init [] [] (Some [95 / 100]) None
       example_clock))) = 4
   \<and> pipeline_messages (snd (process_threat MultiAgentSystem_init [] [] (Some [95 / 100]) None
       example_clock)) = Some 4
   \<and> pipeline_messages
       (snd (process_threat
              (fst (process_threat MultiAgentSystem_init [] [] (Some [95 / 100]) None
                     example_clock))
              [] [] (Some [95 / 100]) None example_clock)) = Some 8"
proof -
  let ?s1 = "fst (process_threat MultiAgentSystem_init [] [] (Some [95 / 100]) None example_clock)"
  have d0: "get_detections (content (snd (process_data (detection_agent MultiAgentSystem_init)
       [] [] (Some [95 / 100]) (example_clock 1) (example_clock 2)))) \<noteq> []"
    by (simp add: detection_message send_message_def get_detections_def detect_from_scores_def
        MultiAgentSystem_init_def DetectionAgent_init_def enumerate_eq_zip)
  have q0: "message_queue MultiAgentSystem_init = []"
    by (simp add: MultiAgentSystem_init_def)
  from process_threat_long[OF d0, of None] q0
  have l1: "length (message_queue ?s1) = 4"
    and p1: "pipeline_messages (snd (process_threat MultiAgentSystem_init [] []
               (Some [95 / 100]) None example_clock)) = Some 4"
    by auto
  have det1: "detection_agent ?s1 = DetectionAgent_init"
    by (simp add: process_threat_def Let_def case_prod_beta process_data_def
        MultiAgentSystem_init_def DetectionAgent_init_def)
  have d1: "get_detections (content (snd (process_data (detection_agent ?s1)
       [] [] (Some [95 / 100]) (example_clock 1) (example_clock 2)))) \<noteq> []"
    unfolding det1
    by (simp add: detection_message send_message_def get_detections_def detect_from_scores_def
        DetectionAgent_init_def enumerate_eq_zip)
  from process_threat_long[OF d1, of None] l1
  have "pipeline_messages (snd (process_threat ?s1 [] [] (Some [95 / 100]) None example_clock))
          = Some 8"
    by auto
  with l1 p1 show ?thesis by blast
qed

text \<open>
  Claim C8, amended.  The messages of a run are appended to \<open>message_queue\<close> and stay there:
  a run adds two messages when nothing is detected and four otherwise, the earlier
  messages are kept, and \<open>pipeline_messages\<close> is the length of the whole queue (all runs so
  far on this system), as is the count that \<^verbatim>\<open>get_system_status\<close> reports.
\<close>

theorem message_queue_accumulates:
  "length (message_queue (fst (process_threat self packets events anomaly_scores fs clk)))
     = length (message_queue self)
       + (if get_detections (content (snd (process_data (detection_agent self) packets events
                anomaly_scores (clk 1) (clk 2)))) = [] then 2 else 4)
   \<and> take (length (message_queue self))
        (message_queue (fst (process_threat self packets events anomaly_scores fs clk)))
       = message_queue self
   \<and> (get_detections (content (snd (process_data (detection_agent self) packets events
          anomaly_scores (clk 1) (clk 2)))) \<noteq> [] \<longrightarrow>
        pipeline_messages (snd (process_threat self packets events anomaly_scores fs clk))
          = Some (length (message_queue self) + 4))
   \<and> messages_processed (fst (process_threat self packets events anomaly_scores fs clk))
       = length (message_queue (fst (process_threat self packets events anomaly_scores fs clk)))"
proof (cases "get_detections (content (snd (process_data (detection_agent self) packets events
          anomaly_scores (clk 1) (clk 2)))) = []")
  case True
  then show ?thesis
    by (simp add: process_threat_short[OF True] messages_processed_def)
next
  case False
  from process_threat_long[OF False, of fs] False show ?thesis
    by (auto simp: messages_processed_def)
qed

text \<open>Claim C8 amended, at the first run of a fresh system with the score 0.95.\<close>

theorem message_queue_accumulates_witness:
  "length (message_queue (fst (process_threat MultiAgentSystem_init [] [] (Some [95 / 100]) None
       example_clock))) = 4
   \<and> pipeline_messages (snd (process_threat MultiAgentSystem_init [] [] (Some [95 / 100]) None
       example_clock)) = Some 4"
proof -
  have d0: "get_detections (content (snd (process_data (detection_agent MultiAgentSystem_init)
       [] [] (Some [95 / 100]) (example_clock 1) (example_clock 2)))) \<noteq> []"
    by (simp add: detection_message send_message_def get_detections_def detect_from_scores_def
        MultiAgentSystem_init_def DetectionAgent_init_def enumerate_eq_zip)
  have q0: "message_queue MultiAgentSystem_init = []"
    by (simp add: MultiAgentSystem_init_def)
  show ?thesis
    using d0 q0
      message_queue_accumulates [of MultiAgentSystem_init "[]" "[]" "Some [95 / 100]" None
        example_clock]
    by simp
qed

text \<open>
  Claim C9 as stated fails: construction succeeds (it takes no thresholds), and
  \<^verbatim>\<open>classify_anomaly\<close> accepts the critical threshold 0.5 below the warning threshold 0.9
  and classifies.
\<close>

theorem thresholds_not_validated_counterexample:
  "AnomalyDetector_init (1 / 10) = Inr untrained_detector
   \<and> (5 / 10 :: real) < 9 / 10
   \<and> fst (classify_anomaly (8 / 10) (5 / 10) (9 / 10)) = ''CRITICAL''
   \<and> fst (classify_anomaly (4 / 10) (5 / 10) (9 / 10)) = ''NORMAL''"
  by (simp add: AnomalyDetector_init_def untrained_detector_def classify_anomaly_def)

text \<open>
  Claim C9, amended.  The thresholds are arguments of \<^verbatim>\<open>classify_anomaly\<close>, not of the
  constructor, and nothing validates them: construction never fails, and with
  \<open>critical_threshold < warning_threshold\<close> the call returns CRITICAL for a score at or
  above the critical threshold and NORMAL otherwise.
\<close>

theorem thresholds_not_validated:
  "\<not> isl (AnomalyDetector_init ratio)
   \<and> (critical_threshold < warning_threshold \<longrightarrow>
        fst (classify_anomaly score critical_threshold warning_threshold)
          = (if score \<ge> critical_threshold then ''CRITICAL'' else ''NORMAL''))"
  by (simp add: AnomalyDetector_init_def classify_anomaly_def)

text \<open>Claim C9 amended, at the thresholds 0.5 and 0.9 and the score 0.8.\<close>

theorem thresholds_not_validated_witness:
  "(5 / 10 :: real) < 9 / 10
   \<and> fst (classify_anomaly (8 / 10) (5 / 10) (9 / 10)) = ''CRITICAL''
   \<and> \<not> isl (AnomalyDetector_init (1 / 10))"
  using thresholds_not_validated [of "1 / 10" "5 / 10" "9 / 10" "8 / 10"] by simp





end
